theory Spec2Isabelle
  imports Complex_Main "HOL-Library.Multiset" "HOL-Library.AList"
begin

section \<open>Data model\<close>

text \<open>
  Times are Python floats in the source; they are modelled as rationals (\<^typ>\<open>rat\<close>), so
  that arithmetic on timestamps is exact. Rounding shows where a float is truncated to whole
  milliseconds; timing matching therefore also has a version with the rounding explicit.
  Strings are lists of characters, one \<^typ>\<open>char\<close> per code point (code points below
  256).
\<close>

text \<open>
  \<^verbatim>\<open>AudioSentence\<close> of \<^verbatim>\<open>models/audio.py\<close>. The dictionaries
  \<^verbatim>\<open>{'text', 'start_time', 'end_time'}\<close> built in \<^verbatim>\<open>main.py\<close> carry the
  same three keys and are values of the same record, with no confidence.
\<close>

record sentence =
  sentence_text :: string
  start_time :: rat
  end_time :: rat
  confidence :: "rat option"

text \<open>A gap dictionary \<^verbatim>\<open>{'start', 'end', 'duration'}\<close>.\<close>

record gap =
  gap_start :: rat
  gap_end :: rat
  gap_duration :: rat

text \<open>The dictionary returned by \<^verbatim>\<open>analyze_sentence_gaps\<close>.\<close>

record analysis =
  total_sentences :: nat
  total_duration :: rat
  total_speech_time :: rat
  total_gap_time :: rat
  speech_ratio :: rat
  gaps :: "gap list"
  filtered_sentences :: nat

section \<open>Python string primitives\<close>

text \<open>\<^verbatim>\<open>str.isspace\<close> on code points below 256.\<close>

definition isspace :: "char \<Rightarrow> bool" where
  "isspace c =
     (let n = (of_char c :: nat)
      in (9 \<le> n \<and> n \<le> 13) \<or> (28 \<le> n \<and> n \<le> 32) \<or> n = 133 \<or> n = 160)"

text \<open>\<^verbatim>\<open>str.strip()\<close>: leading and trailing whitespace removed.\<close>

definition strip :: "string \<Rightarrow> string" where
  "strip s = rev (dropWhile isspace (rev (dropWhile isspace s)))"


section \<open>\<^verbatim>\<open>SentenceProcessor\<close> (services/sentence_processor.py)\<close>

subsection \<open>\<^verbatim>\<open>_filter_empty_spaces\<close>\<close>

text \<open>
  The loop appends a sentence unless one of the two \<^verbatim>\<open>continue\<close> branches is taken:
  a duration below 0.1 s, or a stripped text of fewer than 2 characters.
\<close>

fun filter_empty_spaces :: "sentence list \<Rightarrow> sentence list" where
  "filter_empty_spaces [] = []"
| "filter_empty_spaces (s # rest) =
     (let duration = end_time s - start_time s
      in if duration < 0.1 then filter_empty_spaces rest
         else let t = strip (sentence_text s)
              in if length t < 2 then filter_empty_spaces rest
                 else s # filter_empty_spaces rest)"

subsection \<open>\<^verbatim>\<open>_create_continuous_timeline\<close>\<close>

fun create_continuous_timeline :: "sentence list \<Rightarrow> (sentence \<times> rat) list" where
  "create_continuous_timeline [] = []"
| "create_continuous_timeline (s # rest) =
     (let original_duration = end_time s - start_time s
      in (s, original_duration) # create_continuous_timeline rest)"

subsection \<open>\<^verbatim>\<open>analyze_sentence_gaps\<close>\<close>

text \<open>
  The loop over \<^verbatim>\<open>enumerate(sorted_sentences)\<close>. The first argument is the previous
  sentence (\<^verbatim>\<open>sorted_sentences[i-1]\<close>), absent at \<^verbatim>\<open>i = 0\<close>; the last two are the
  accumulators \<^verbatim>\<open>gaps\<close> and \<^verbatim>\<open>total_speech_time\<close>.
\<close>

fun gaps_loop :: "sentence option \<Rightarrow> sentence list \<Rightarrow> gap list \<Rightarrow> rat \<Rightarrow> gap list \<times> rat" where
  "gaps_loop prev [] gs speech = (gs, speech)"
| "gaps_loop prev (s # rest) gs speech =
     (let speech_duration = end_time s - start_time s;
          speech' = speech + speech_duration;
          gs' = (case prev of
                   None \<Rightarrow> gs
                 | Some prev_sentence \<Rightarrow>
                     (let g_start = end_time prev_sentence;
                          g_end = start_time s;
                          g_duration = g_end - g_start
                      in if g_duration > 0.1
                         then gs @ [\<lparr>gap_start = g_start, gap_end = g_end, gap_duration = g_duration\<rparr>]
                         else gs))
      in gaps_loop (Some s) rest gs' speech')"

text \<open>
  \<^verbatim>\<open>sorted(sentences, key=lambda x: x['start_time'])\<close> is a stable sort, as
  \<^const>\<open>sort_key\<close> is. The \<^verbatim>\<open>except\<close> branch (which returns an empty dictionary) is not
  reachable on sentences that carry their three keys, so the model is a total function.
\<close>

definition analyze_sentence_gaps :: "sentence list \<Rightarrow> analysis" where
  "analyze_sentence_gaps sentences =
     (let sorted_sentences = sort_key start_time sentences;
          (gs, tst) = gaps_loop None sorted_sentences [] 0;
          gs' = (if sorted_sentences \<noteq> [] \<and> start_time (hd sorted_sentences) > 0.1
                 then \<lparr>gap_start = 0, gap_end = start_time (hd sorted_sentences),
                        gap_duration = start_time (hd sorted_sentences)\<rparr> # gs
                 else gs);
          tgt = sum_list (map gap_duration gs');
          td = (if sorted_sentences \<noteq> [] then end_time (last sorted_sentences) else 0)
      in \<lparr>total_sentences = length sentences,
          total_duration = td,
          total_speech_time = tst,
          total_gap_time = tgt,
          speech_ratio = (if td > 0 then tst / td else 0),
          gaps = gs',
          filtered_sentences =
            length (filter (\<lambda>s. end_time s - start_time s \<ge> 0.1) sentences)\<rparr>)"


text \<open>The rule the two \<^verbatim>\<open>continue\<close> branches of \<^verbatim>\<open>_filter_empty_spaces\<close> implement.\<close>

definition code_valid :: "sentence \<Rightarrow> bool" where
  "code_valid s = (end_time s - start_time s \<ge> 0.1 \<and> length (strip (sentence_text s)) \<ge> 2)"

text \<open>A sentence with the given text and timestamps, as the transcription returns it.\<close>

definition mk :: "string \<Rightarrow> rat \<Rightarrow> rat \<Rightarrow> sentence" where
  "mk t s e = \<lparr>sentence_text = t, start_time = s, end_time = e, confidence = None\<rparr>"

text \<open>The three sentences of the specification's end-to-end scenario.\<close>

definition e2e_sentences :: "sentence list" where
  "e2e_sentences =
     [mk ''Hello,'' 0.33 0.47, mk ''so today'' 1.15 2.23, mk ''I will demonstrate...'' 2.57 7.52]"

section \<open>Python and pydub primitives\<close>

text \<open>
  The exceptions the modelled code can meet, each with its message. \<open>str\<close> is Python's
  \<^verbatim>\<open>str(e)\<close>, the message that the \<^verbatim>\<open>except\<close> clauses of the source splice into
  the exception they raise in turn.
\<close>

datatype exn =
  Exception string
| ValueError string
| ZeroDivisionError
| FileNotFoundError string
| CouldntDecodeError string

fun str :: "exn \<Rightarrow> string" where
  "str (Exception m) = m"
| "str (ValueError m) = m"
| "str ZeroDivisionError = ''float division by zero''"
| "str (FileNotFoundError m) = m"
| "str (CouldntDecodeError p) = ''Decoding failed: '' @ p"

text \<open>Python's \<^verbatim>\<open>int(x)\<close> on a float: truncation towards zero.\<close>

definition py_int :: "rat \<Rightarrow> int" where
  "py_int x = (if x \<ge> 0 then \<lfloor>x\<rfloor> else - \<lfloor>- x\<rfloor>)"

text \<open>
  A pydub \<^verbatim>\<open>AudioSegment\<close> at the resolution of its own interface, the millisecond:
  \<^verbatim>\<open>len(audio)\<close>, \<^verbatim>\<open>audio[:ms]\<close> and \<^verbatim>\<open>AudioSegment.silent(duration=ms)\<close> all count
  milliseconds. \<open>frames\<close> holds one amplitude per millisecond (0 is silence).
\<close>

record clip =
  frames :: "int list"
  frame_rate :: nat
  channels :: nat

definition len :: "clip \<Rightarrow> nat" where
  "len a = length (frames a)"

text \<open>\<^verbatim>\<open>AudioSegment.empty()\<close>.\<close>

definition empty_segment :: clip where
  "empty_segment = \<lparr>frames = [], frame_rate = 1, channels = 1\<rparr>"

text \<open>\<^verbatim>\<open>AudioSegment.silent(duration=d)\<close>; a negative duration gives no frame.\<close>

definition silent :: "int \<Rightarrow> clip" where
  "silent d = \<lparr>frames = replicate (nat d) 0, frame_rate = 11025, channels = 1\<rparr>"

text \<open>\<^verbatim>\<open>a + b\<close>: both operands are brought to the larger rate and channel count, then joined.\<close>

definition add_seg :: "clip \<Rightarrow> clip \<Rightarrow> clip" where
  "add_seg a b =
     \<lparr>frames = frames a @ frames b,
      frame_rate = max (frame_rate a) (frame_rate b),
      channels = max (channels a) (channels b)\<rparr>"

text \<open>Python's \<^verbatim>\<open>data[0:j]\<close> on a sequence: a negative bound counts from the end.\<close>

definition py_slice :: "'a list \<Rightarrow> int \<Rightarrow> 'a list" where
  "py_slice xs j = (if j \<ge> 0 then take (nat j) xs else take (nat (int (length xs) + j)) xs)"

text \<open>
  \<^verbatim>\<open>audio[:n]\<close>: the bound is capped at the length, a negative bound is taken from the
  end (\<^verbatim>\<open>_parse_position\<close>), and the data are sliced at the resulting position.
\<close>

definition slice_to :: "clip \<Rightarrow> int \<Rightarrow> clip" where
  "slice_to a n =
     (let e = min n (int (len a));
          pos = (if e < 0 then int (len a) - \<bar>e\<bar> else e)
      in a\<lparr>frames := py_slice (frames a) pos\<rparr>)"

definition set_frame_rate :: "clip \<Rightarrow> nat \<Rightarrow> clip" where
  "set_frame_rate a r = a\<lparr>frame_rate := r\<rparr>"

definition set_channels :: "clip \<Rightarrow> nat \<Rightarrow> clip" where
  "set_channels a c = a\<lparr>channels := c\<rparr>"

text \<open>
  The file system: an association list from paths to contents. A file either decodes to a
  clip or does not decode at all.
\<close>

type_synonym path = string

datatype content = Audio clip | Garbage

type_synonym fs = "(path \<times> content) list"

definition exists :: "fs \<Rightarrow> path \<Rightarrow> bool" where
  "exists fs p = (map_of fs p \<noteq> None)"

definition remove :: "fs \<Rightarrow> path \<Rightarrow> fs" where
  "remove fs p = AList.delete p fs"

definition write_file :: "fs \<Rightarrow> path \<Rightarrow> content \<Rightarrow> fs" where
  "write_file fs p f = AList.update p f fs"

text \<open>
  \<^verbatim>\<open>AudioSegment.from_file(path)\<close>. On a missing file Python prints the error as
  \<^verbatim>\<open>[Errno 2] No such file or directory: 'path'\<close>.
\<close>

definition no_such_file :: "path \<Rightarrow> string" where
  "no_such_file p = ''[Errno 2] No such file or directory: '' @ [CHR 0x27] @ p @ [CHR 0x27]"

definition from_file :: "fs \<Rightarrow> path \<Rightarrow> exn + clip" where
  "from_file fs p =
     (case map_of fs p of
        None \<Rightarrow> Inl (FileNotFoundError (no_such_file p))
      | Some Garbage \<Rightarrow> Inl (CouldntDecodeError p)
      | Some (Audio a) \<Rightarrow> Inr a)"

text \<open>
  \<^verbatim>\<open>audio.export(path, format="wav", parameters=["-ar", rate, "-ac", channels])\<close>: the
  file written has the requested rate and channel count.
\<close>

definition export :: "fs \<Rightarrow> path \<Rightarrow> clip \<Rightarrow> nat \<Rightarrow> nat \<Rightarrow> fs" where
  "export fs p a r c = write_file fs p (Audio (a\<lparr>frame_rate := r, channels := c\<rparr>))"

text \<open>The defaults of \<^verbatim>\<open>utils/config.py\<close>; \<^verbatim>\<open>Path(dir) / name\<close> prints as \<open>dir/name\<close>.\<close>

definition UPLOAD_DIR :: string where
  "UPLOAD_DIR = ''uploads''"

definition OUTPUT_DIR :: string where
  "OUTPUT_DIR = ''outputs''"

definition AUDIO_SAMPLE_RATE :: nat where
  "AUDIO_SAMPLE_RATE = 22050"

definition AUDIO_CHANNELS :: nat where
  "AUDIO_CHANNELS = 1"

definition wav_path :: "string \<Rightarrow> string \<Rightarrow> path" where
  "wav_path dir filename = dir @ ''/'' @ filename @ ''.wav''"

text \<open>
  pydub's \<^verbatim>\<open>audio.speedup(playback_speed=s)\<close> is a signal-processing primitive of a
  library: it is a parameter of the model, returning a clip or raising.
\<close>

type_synonym speedup = "clip \<Rightarrow> rat \<Rightarrow> exn + clip"

section \<open>\<^verbatim>\<open>AudioProcessor\<close> (services/audio_processor.py)\<close>

text \<open>The \<^verbatim>\<open>except Exception as e: raise Exception(prefix + str(e))\<close> of every method.\<close>

definition reraise :: "string \<Rightarrow> exn + 'a \<Rightarrow> exn + 'a" where
  "reraise prefix r = (case r of Inl e \<Rightarrow> Inl (Exception (prefix @ str e)) | Inr x \<Rightarrow> Inr x)"

definition stretch_audio :: "speedup \<Rightarrow> clip \<Rightarrow> rat \<Rightarrow> clip" where
  "stretch_audio sp audio ratio =
     (case (if ratio = 0 then Inl ZeroDivisionError else sp audio (1 / ratio)) of
        Inr stretched \<Rightarrow> stretched
      | Inl e \<Rightarrow>
          (let target_duration_ms = py_int (of_nat (len audio) * ratio);
               padding_ms = target_duration_ms - int (len audio)
           in add_seg audio (silent padding_ms)))"

definition compress_audio :: "speedup \<Rightarrow> clip \<Rightarrow> rat \<Rightarrow> clip" where
  "compress_audio sp audio ratio =
     (case (if ratio = 0 then Inl ZeroDivisionError else sp audio (1 / ratio)) of
        Inr compressed \<Rightarrow> compressed
      | Inl e \<Rightarrow>
          (let target_duration_ms = py_int (of_nat (len audio) * ratio)
           in slice_to audio target_duration_ms))"

definition ensure_exact_duration :: "clip \<Rightarrow> rat \<Rightarrow> clip" where
  "ensure_exact_duration audio target_duration =
     (let target_duration_ms = py_int (target_duration * 1000);
          current_duration_ms = int (len audio)
      in if current_duration_ms < target_duration_ms
         then add_seg audio (silent (target_duration_ms - current_duration_ms))
         else if current_duration_ms > target_duration_ms
         then slice_to audio target_duration_ms
         else audio)"

text \<open>
  In both helpers the division \<^verbatim>\<open>1.0/ratio\<close> stands inside the \<^verbatim>\<open>try\<close> block: with
  a ratio of 0 it raises, and the fallback runs without the speed-up being called.

  \<^verbatim>\<open>match_timing\<close>. The division \<^verbatim>\<open>target_duration / cloned_duration\<close> is a float
  division, which raises \<^verbatim>\<open>ZeroDivisionError\<close> on a clip of length 0; the method's
  \<^verbatim>\<open>except\<close> clause turns every exception into \<^verbatim>\<open>Exception("Audio timing matching failed: ...")\<close>.
  The result is the path written and the new file system.
\<close>

definition match_timing ::
  "speedup \<Rightarrow> fs \<Rightarrow> path \<Rightarrow> rat \<Rightarrow> rat \<Rightarrow> string \<Rightarrow> exn + (path \<times> fs)" where
  "match_timing sp fs cloned_audio_path target_start_time target_end_time output_filename =
     reraise ''Audio timing matching failed: ''
       (let target_duration = target_end_time - target_start_time
        in case from_file fs cloned_audio_path of
             Inl e \<Rightarrow> Inl e
           | Inr cloned_audio \<Rightarrow>
               (let cloned_duration = (of_nat (len cloned_audio) :: rat) / 1000
                in if cloned_duration = 0 then Inl ZeroDivisionError
                   else
                     (let duration_ratio = target_duration / cloned_duration;
                          output_path = wav_path OUTPUT_DIR output_filename;
                          matched_audio =
                            (if \<bar>duration_ratio - 1\<bar> < 0.05 then cloned_audio
                             else if duration_ratio > 1
                             then stretch_audio sp cloned_audio duration_ratio
                             else compress_audio sp cloned_audio duration_ratio);
                          matched_audio' = ensure_exact_duration matched_audio target_duration
                      in Inr (output_path,
                              export fs output_path matched_audio' AUDIO_SAMPLE_RATE AUDIO_CHANNELS))))"

subsection \<open>Floating point in \<^verbatim>\<open>match_timing\<close>\<close>

text \<open>
  The definitions above compute with exact rationals. Where the source truncates a float
  with \<^verbatim>\<open>int(...)\<close>, the rounding of the float operations that lead to it can move the
  result by one millisecond. The versions below make it explicit: \<open>fl\<close> is the rounding
  of a real result to a float, applied after every float operation of the source (the
  literal \<^verbatim>\<open>0.05\<close> is a rounded constant too). A rounding function has a relative error of at
  most the unit round-off \<open>2\<^sup>-\<^sup>5\<^sup>3\<close>, as IEEE double precision has in its normal range;
  the identity is the rounding of exact arithmetic.
\<close>

definition unit_roundoff :: rat where
  "unit_roundoff = 1 / 2 ^ 53"

definition rounding :: "(rat \<Rightarrow> rat) \<Rightarrow> bool" where
  "rounding fl = (\<forall>x. \<bar>fl x - x\<bar> \<le> unit_roundoff * \<bar>x\<bar>)"

definition stretch_audio_fl :: "(rat \<Rightarrow> rat) \<Rightarrow> speedup \<Rightarrow> clip \<Rightarrow> rat \<Rightarrow> clip" where
  "stretch_audio_fl fl sp audio ratio =
     (case (if ratio = 0 then Inl ZeroDivisionError else sp audio (fl (1 / ratio))) of
        Inr stretched \<Rightarrow> stretched
      | Inl e \<Rightarrow>
          (let target_duration_ms = py_int (fl (of_nat (len audio) * ratio));
               padding_ms = target_duration_ms - int (len audio)
           in add_seg audio (silent padding_ms)))"

definition compress_audio_fl :: "(rat \<Rightarrow> rat) \<Rightarrow> speedup \<Rightarrow> clip \<Rightarrow> rat \<Rightarrow> clip" where
  "compress_audio_fl fl sp audio ratio =
     (case (if ratio = 0 then Inl ZeroDivisionError else sp audio (fl (1 / ratio))) of
        Inr compressed \<Rightarrow> compressed
      | Inl e \<Rightarrow>
          (let target_duration_ms = py_int (fl (of_nat (len audio) * ratio))
           in slice_to audio target_duration_ms))"

definition ensure_exact_duration_fl :: "(rat \<Rightarrow> rat) \<Rightarrow> clip \<Rightarrow> rat \<Rightarrow> clip" where
  "ensure_exact_duration_fl fl audio target_duration =
     (let target_duration_ms = py_int (fl (target_duration * 1000));
          current_duration_ms = int (len audio)
      in if current_duration_ms < target_duration_ms
         then add_seg audio (silent (target_duration_ms - current_duration_ms))
         else if current_duration_ms > target_duration_ms
         then slice_to audio target_duration_ms
         else audio)"

definition match_timing_fl ::
  "(rat \<Rightarrow> rat) \<Rightarrow> speedup \<Rightarrow> fs \<Rightarrow> path \<Rightarrow> rat \<Rightarrow> rat \<Rightarrow> string \<Rightarrow> exn + (path \<times> fs)" where
  "match_timing_fl fl sp fs cloned_audio_path target_start_time target_end_time output_filename =
     reraise ''Audio timing matching failed: ''
       (let target_duration = fl (target_end_time - target_start_time)
        in case from_file fs cloned_audio_path of
             Inl e \<Rightarrow> Inl e
           | Inr cloned_audio \<Rightarrow>
               (let cloned_duration = fl ((of_nat (len cloned_audio) :: rat) / 1000)
                in if cloned_duration = 0 then Inl ZeroDivisionError
                   else
                     (let duration_ratio = fl (target_duration / cloned_duration);
                          output_path = wav_path OUTPUT_DIR output_filename;
                          matched_audio =
                            (if \<bar>fl (duration_ratio - 1)\<bar> < fl 0.05 then cloned_audio
                             else if duration_ratio > 1
                             then stretch_audio_fl fl sp cloned_audio duration_ratio
                             else compress_audio_fl fl sp cloned_audio duration_ratio);
                          matched_audio' =
                            ensure_exact_duration_fl fl matched_audio target_duration
                      in Inr (output_path,
                              export fs output_path matched_audio' AUDIO_SAMPLE_RATE AUDIO_CHANNELS))))"

subsection \<open>\<^verbatim>\<open>concatenate_audio\<close>\<close>

text \<open>
  The loop of \<^verbatim>\<open>concatenate_audio\<close>: a segment that loads is normalised and appended; one
  that does not load is replaced by 1000 ms of silence.
\<close>

fun concat_loop :: "fs \<Rightarrow> path list \<Rightarrow> clip \<Rightarrow> clip" where
  "concat_loop fs [] combined_audio = combined_audio"
| "concat_loop fs (audio_path # rest) combined_audio =
     (case from_file fs audio_path of
        Inr audio_segment \<Rightarrow>
          concat_loop fs rest
            (add_seg combined_audio
               (set_channels (set_frame_rate audio_segment AUDIO_SAMPLE_RATE) AUDIO_CHANNELS))
      | Inl e \<Rightarrow>
          (let silence_duration = 1000
           in concat_loop fs rest (add_seg combined_audio (silent silence_duration))))"

definition concatenate_audio :: "fs \<Rightarrow> path list \<Rightarrow> string \<Rightarrow> exn + (path \<times> fs)" where
  "concatenate_audio fs audio_paths output_filename =
     reraise ''Audio concatenation failed: ''
       (if audio_paths = [] then Inl (ValueError ''No audio files to concatenate'')
        else
          (let output_path = wav_path OUTPUT_DIR output_filename;
               combined_audio = concat_loop fs audio_paths empty_segment
           in if len combined_audio = 0 then Inl (Exception ''No valid audio segments found'')
              else Inr (output_path,
                        export fs output_path combined_audio AUDIO_SAMPLE_RATE AUDIO_CHANNELS)))"

section \<open>Job state and collaborators (main.py)\<close>

text \<open>Python's \<^verbatim>\<open>str(i)\<close> on a natural number, and \<^verbatim>\<open>s.lower()\<close> on ASCII.\<close>

definition digit :: "nat \<Rightarrow> char" where
  "digit n = ''0123456789'' ! n"

fun str_nat :: "nat \<Rightarrow> string" where
  "str_nat n = (if n < 10 then [digit n] else str_nat (n div 10) @ [digit (n mod 10)])"

declare str_nat.simps [simp del]

definition lower :: "string \<Rightarrow> string" where
  "lower s =
     map (\<lambda>c. let n = (of_char c :: nat) in if 65 \<le> n \<and> n \<le> 90 then char_of (n + 32) else c) s"

text \<open>\<^verbatim>\<open>ProcessingStatus\<close>: the entry \<^verbatim>\<open>job_status[job_id]\<close> of one job.\<close>

record job =
  status :: string
  progress :: int
  message :: string
  download_url :: "string option"
  error :: "string option"

text \<open>
  The state a conversion acts on: the files, the job's status entry, and the list
  \<^verbatim>\<open>self.temp_files\<close> of the converter object of the job. \<open>progress_log\<close> is a history
  variable: every value assigned to \<^verbatim>\<open>progress\<close>, in order of assignment.
\<close>

record world =
  files :: fs
  job :: job
  progress_log :: "int list"
  temp_files :: "path list"

text \<open>
  The collaborators, parameters of the model: the transcription service (the sentences it
  returns for a file, or the exception it raises), the HTTP response of the synthesis
  service for a text and a voice (the content saved to the clip's file), pydub's speed-up,
  the hexadecimal prefix of the \<open>i\<close>-th identifier drawn from \<^verbatim>\<open>uuid.uuid4()\<close>, and
  the same-length converter, which no statement below depends on.
\<close>

record env =
  transcribe_audio :: "path \<Rightarrow> exn + sentence list"
  synthesize :: "string \<Rightarrow> string \<Rightarrow> exn + content"
  speed :: speedup
  uuid_hex :: "nat \<Rightarrow> string"
  convert_voice_same_length :: "path \<Rightarrow> fs \<Rightarrow> (exn + path) \<times> fs"

definition set_progress :: "int \<Rightarrow> world \<Rightarrow> world" where
  "set_progress n w = w\<lparr>job := (job w)\<lparr>progress := n\<rparr>, progress_log := progress_log w @ [n]\<rparr>"

definition set_message :: "string \<Rightarrow> world \<Rightarrow> world" where
  "set_message m w = w\<lparr>job := (job w)\<lparr>message := m\<rparr>\<rparr>"

definition set_status :: "string \<Rightarrow> world \<Rightarrow> world" where
  "set_status st w = w\<lparr>job := (job w)\<lparr>status := st\<rparr>\<rparr>"

text \<open>The entry that \<^verbatim>\<open>upload_audio\<close> creates before it schedules the conversion.\<close>

definition queued :: "fs \<Rightarrow> world" where
  "queued fs =
     \<lparr>files = fs,
      job = \<lparr>status = ''queued'', progress = 0,
             message = ''File uploaded successfully, processing queued'',
             download_url = None, error = None\<rparr>,
      progress_log = [0],
      temp_files = []\<rparr>"

text \<open>\<^verbatim>\<open>ElevenLabsService.generate_speech\<close>: the response is saved under the output directory.\<close>

definition generate_speech ::
  "env \<Rightarrow> string \<Rightarrow> string \<Rightarrow> string \<Rightarrow> world \<Rightarrow> (exn + path) \<times> world" where
  "generate_speech env txt voice_id output_filename w =
     (let output_path = wav_path OUTPUT_DIR output_filename
      in case synthesize env txt voice_id of
           Inl e \<Rightarrow> (Inl (Exception (''ElevenLabs speech generation failed: '' @ str e)), w)
         | Inr c \<Rightarrow> (Inr output_path, w\<lparr>files := write_file (files w) output_path c\<rparr>))"

text \<open>The two methods of the audio processor, acting on the files of the state.\<close>

definition match_timing_io ::
  "env \<Rightarrow> path \<Rightarrow> rat \<Rightarrow> rat \<Rightarrow> string \<Rightarrow> world \<Rightarrow> (exn + path) \<times> world" where
  "match_timing_io env cloned_audio_path ts te output_filename w =
     (case match_timing (speed env) (files w) cloned_audio_path ts te output_filename of
        Inl e \<Rightarrow> (Inl e, w)
      | Inr (output_path, fs') \<Rightarrow> (Inr output_path, w\<lparr>files := fs'\<rparr>))"

definition concatenate_audio_io :: "path list \<Rightarrow> string \<Rightarrow> world \<Rightarrow> (exn + path) \<times> world" where
  "concatenate_audio_io audio_paths output_filename w =
     (case concatenate_audio (files w) audio_paths output_filename of
        Inl e \<Rightarrow> (Inl e, w)
      | Inr (output_path, fs') \<Rightarrow> (Inr output_path, w\<lparr>files := fs'\<rparr>))"

text \<open>Deleting a file if it exists, as every clean-up loop of the source does.\<close>

definition remove_if_exists :: "path \<Rightarrow> fs \<Rightarrow> fs" where
  "remove_if_exists p fs = (if exists fs p then remove fs p else fs)"

section \<open>\<^verbatim>\<open>ContinuousVoiceConverter\<close> (main.py)\<close>

text \<open>
  The loop of \<^verbatim>\<open>_create_continuous_audio_with_spaces\<close> over
  \<^verbatim>\<open>zip(temp_audio_files, sentences)\<close>, with its accumulators \<^verbatim>\<open>final_audio\<close> and
  \<^verbatim>\<open>current_position\<close>. It stops at the first clip that does not load.
\<close>

fun spaces_loop :: "fs \<Rightarrow> (path \<times> sentence) list \<Rightarrow> clip \<Rightarrow> rat \<Rightarrow> exn + clip" where
  "spaces_loop fs [] final_audio current_position = Inr final_audio"
| "spaces_loop fs ((audio_file, sentence) # rest) final_audio current_position =
     (case from_file fs audio_file of
        Inl e \<Rightarrow> Inl e
      | Inr sentence_audio \<Rightarrow>
          (let sentence_duration = (of_nat (len sentence_audio) :: rat) / 1000;
               gap_duration = start_time sentence - current_position;
               final_audio' =
                 (if gap_duration > 0
                  then add_seg final_audio (silent (py_int (gap_duration * 1000)))
                  else final_audio);
               final_audio'' = add_seg final_audio' sentence_audio
           in spaces_loop fs rest final_audio'' (start_time sentence + sentence_duration)))"

definition create_continuous_audio_with_spaces ::
  "path list \<Rightarrow> sentence list \<Rightarrow> path \<Rightarrow> string \<Rightarrow> world \<Rightarrow> (exn + path) \<times> world" where
  "create_continuous_audio_with_spaces temp_audio_files sentences input_path job_id w =
     (let output_filename = job_id @ ''_continuous'';
          output_path = wav_path OUTPUT_DIR output_filename;
          r = (case from_file (files w) input_path of
                 Inl e \<Rightarrow> Inl e
               | Inr original_audio \<Rightarrow>
                   (let original_duration = (of_nat (len original_audio) :: rat) / 1000
                    in case spaces_loop (files w) (zip temp_audio_files sentences) empty_segment 0 of
                         Inl e \<Rightarrow> Inl e
                       | Inr final_audio \<Rightarrow>
                           (let final_duration = (of_nat (len final_audio) :: rat) / 1000;
                                final_audio' =
                                  (if final_duration < original_duration
                                   then (let remaining_gap = original_duration - final_duration
                                         in if remaining_gap > 0
                                            then add_seg final_audio
                                                   (silent (py_int (remaining_gap * 1000)))
                                            else final_audio)
                                   else final_audio)
                            in Inr final_audio')))
      in case reraise ''Continuous audio creation failed: '' r of
           Inl e \<Rightarrow> (Inl e, w)
         | Inr final_audio \<Rightarrow>
             (Inr output_path,
              w\<lparr>files := export (files w) output_path final_audio AUDIO_SAMPLE_RATE AUDIO_CHANNELS\<rparr>))"

text \<open>\<^verbatim>\<open>_cleanup_temp_files\<close> of the converter: every listed file is deleted, the list cleared.\<close>

definition converter_cleanup_temp_files :: "world \<Rightarrow> world" where
  "converter_cleanup_temp_files w =
     w\<lparr>files := fold remove_if_exists (temp_files w) (files w), temp_files := []\<rparr>"

text \<open>The synthesis loop of \<^verbatim>\<open>convert_voice_continuous_with_spaces\<close>.\<close>

primrec spaces_synthesis_loop ::
  "env \<Rightarrow> string \<Rightarrow> string \<Rightarrow> nat \<Rightarrow> nat \<Rightarrow> sentence list \<Rightarrow> path list \<Rightarrow> world
     \<Rightarrow> (exn + path list) \<times> world" where
  "spaces_synthesis_loop env voice_id job_id sentence_count i [] temp_audio_files w =
     (Inr temp_audio_files, w)"
| "spaces_synthesis_loop env voice_id job_id sentence_count i (sentence # rest) temp_audio_files w =
     (let p = 20 + (of_nat i / of_nat sentence_count) * 50;
          w1 = set_progress (py_int p) w;
          w2 = set_message (''Processing sentence '' @ str_nat (i + 1) @ ''/''
                 @ str_nat sentence_count @ '' for continuous workflow'') w1
      in case generate_speech env (sentence_text sentence) voice_id
                (job_id @ ''_temp_sentence_'' @ str_nat i) w2 of
           (Inl e, w3) \<Rightarrow> (Inl e, w3)
         | (Inr temp_cloned_path, w3) \<Rightarrow>
             spaces_synthesis_loop env voice_id job_id sentence_count (i + 1) rest
               (temp_audio_files @ [temp_cloned_path])
               (w3\<lparr>temp_files := temp_files w3 @ [temp_cloned_path]\<rparr>))"

definition convert_voice_continuous_with_spaces ::
  "env \<Rightarrow> path \<Rightarrow> string \<Rightarrow> string \<Rightarrow> world \<Rightarrow> (exn + path) \<times> world" where
  "convert_voice_continuous_with_spaces env input_audio_path voice_id job_id w =
     (let (r, w') =
        (if \<not> exists (files w) input_audio_path
         then (Inl (FileNotFoundError (''Input audio file not found: '' @ input_audio_path)), w)
         else
           (let w1 = set_message ''Transcribing audio for continuous processing'' (set_progress 15 w)
            in case transcribe_audio env input_audio_path of
                 Inl e \<Rightarrow> (Inl e, w1)
               | Inr sentences \<Rightarrow>
                   (let sentence_count = length sentences
                    in if sentence_count = 0
                       then (Inl (Exception ''No sentences found in transcription''), w1)
                       else
                         (case spaces_synthesis_loop env voice_id job_id sentence_count 0
                                 sentences [] w1 of
                            (Inl e, w2) \<Rightarrow> (Inl e, w2)
                          | (Inr temp_audio_files, w2) \<Rightarrow>
                              (let w3 = set_message
                                     ''Creating continuous audio with timestamp synchronization''
                                     (set_progress 75 w2)
                               in case create_continuous_audio_with_spaces temp_audio_files
                                         sentences input_audio_path job_id w3 of
                                    (Inl e, w4) \<Rightarrow> (Inl e, w4)
                                  | (Inr final_audio_path, w4) \<Rightarrow>
                                      (let w5 = set_message ''Cleaning up temporary files''
                                                  (set_progress 95 w4)
                                       in (Inr final_audio_path,
                                           converter_cleanup_temp_files w5)))))))
      in case r of
           Inl e \<Rightarrow>
             (Inl (Exception (''Continuous voice conversion failed: '' @ str e)),
              converter_cleanup_temp_files w')
         | Inr final_audio_path \<Rightarrow> (Inr final_audio_path, w'))"

section \<open>Timestamp-based processing (services/sentence_processor.py)\<close>

text \<open>
  \<^verbatim>\<open>_adjust_audio_length\<close>: as \<^verbatim>\<open>match_timing\<close>, but the speed-up is called with no
  fallback, and the file is written under the temporary directory. With a target of 0 the
  division \<^verbatim>\<open>1.0/ratio\<close> raises before the speed-up is called.
\<close>

definition adjust_audio_length ::
  "speedup \<Rightarrow> fs \<Rightarrow> path \<Rightarrow> rat \<Rightarrow> string \<Rightarrow> exn + (path \<times> fs)" where
  "adjust_audio_length sp fs audio_path target_duration output_filename =
     reraise ''Audio length adjustment failed: ''
       (case from_file fs audio_path of
          Inl e \<Rightarrow> Inl e
        | Inr audio \<Rightarrow>
            (let current_duration = (of_nat (len audio) :: rat) / 1000
             in if current_duration = 0 then Inl ZeroDivisionError
                else
                  (let ratio = target_duration / current_duration;
                       output_path = wav_path (OUTPUT_DIR @ ''/temp'') output_filename
                   in case (if \<bar>ratio - 1\<bar> < 0.05 then Inr audio
                            else if ratio = 0 then Inl ZeroDivisionError
                            else sp audio (1 / ratio)) of
                        Inl e \<Rightarrow> Inl e
                      | Inr adjusted_audio \<Rightarrow>
                          (let target_duration_ms = py_int (target_duration * 1000);
                               current_duration_ms = int (len adjusted_audio);
                               adjusted_audio' =
                                 (if current_duration_ms < target_duration_ms
                                  then add_seg adjusted_audio
                                         (silent (target_duration_ms - current_duration_ms))
                                  else if current_duration_ms > target_duration_ms
                                  then slice_to adjusted_audio target_duration_ms
                                  else adjusted_audio)
                           in Inr (output_path,
                                   export fs output_path adjusted_audio'
                                     AUDIO_SAMPLE_RATE AUDIO_CHANNELS)))))"

text \<open>
  The loop of \<^verbatim>\<open>process_sentences_with_timestamps\<close> over the continuous timeline: each
  sentence is synthesised, adjusted to its own original duration, and its synthesised file
  deleted.
\<close>

primrec timestamp_loop ::
  "env \<Rightarrow> string \<Rightarrow> nat \<Rightarrow> (sentence \<times> rat) list \<Rightarrow> path list \<Rightarrow> world
     \<Rightarrow> (exn + path list) \<times> world" where
  "timestamp_loop env voice_id i [] temp w = (Inr temp, w)"
| "timestamp_loop env voice_id i (entry # rest) temp w =
     (let temp_filename = ''temp_sentence_'' @ uuid_hex env i @ ''_'' @ str_nat i
      in case generate_speech env (sentence_text (fst entry)) voice_id temp_filename w of
           (Inl e, w1) \<Rightarrow> (Inl e, w1)
         | (Inr cloned_audio_path, w1) \<Rightarrow>
             (case adjust_audio_length (speed env) (files w1) cloned_audio_path (snd entry)
                     (''adjusted_'' @ temp_filename) of
                Inl e \<Rightarrow> (Inl e, w1)
              | Inr (adjusted_audio_path, fs') \<Rightarrow>
                  timestamp_loop env voice_id (i + 1) rest (temp @ [adjusted_audio_path])
                    (w1\<lparr>files := remove_if_exists cloned_audio_path fs'\<rparr>)))"

definition process_sentences_with_timestamps ::
  "env \<Rightarrow> path \<Rightarrow> sentence list \<Rightarrow> string \<Rightarrow> string \<Rightarrow> world \<Rightarrow> (exn + path) \<times> world" where
  "process_sentences_with_timestamps env original_audio_path sentences voice_id output_filename w =
     (let (r, w') =
        (case from_file (files w) original_audio_path of
           Inl e \<Rightarrow> (Inl e, w)
         | Inr original_audio \<Rightarrow>
             (let filtered_sentences = filter_empty_spaces sentences;
                  continuous_timeline = create_continuous_timeline filtered_sentences
              in case timestamp_loop env voice_id 0 continuous_timeline [] w of
                   (Inl e, w1) \<Rightarrow> (Inl e, w1)
                 | (Inr temp, w1) \<Rightarrow>
                     (case concatenate_audio_io temp output_filename w1 of
                        (Inl e, w2) \<Rightarrow> (Inl e, w2)
                      | (Inr final_output_path, w2) \<Rightarrow>
                          (Inr final_output_path,
                           w2\<lparr>files := fold remove_if_exists temp (files w2)\<rparr>))))
      in case r of
           Inl e \<Rightarrow> (Inl (Exception (''Sentence processing failed: '' @ str e)), w')
         | Inr final_output_path \<Rightarrow> (Inr final_output_path, w'))"

section \<open>\<^verbatim>\<open>process_audio_file\<close> (main.py)\<close>

text \<open>A mode parameter is an optional string; it is on when it is \<^verbatim>\<open>'true'\<close> in any case.\<close>

definition flag :: "string option \<Rightarrow> bool" where
  "flag v = (case v of None \<Rightarrow> False | Some t \<Rightarrow> t \<noteq> [] \<and> lower t = ''true'')"

text \<open>The loop of the continuous mode: every sentence is synthesised, with no timing matching.\<close>

primrec continuous_loop ::
  "env \<Rightarrow> string \<Rightarrow> string \<Rightarrow> nat \<Rightarrow> nat \<Rightarrow> sentence list \<Rightarrow> path list \<Rightarrow> world
     \<Rightarrow> (exn + path list) \<times> world" where
  "continuous_loop env voice_id job_id n i [] processed_chunks w = (Inr processed_chunks, w)"
| "continuous_loop env voice_id job_id n i (sentence # rest) processed_chunks w =
     (let p = 30 + (of_nat i / of_nat n) * 50;
          w1 = set_progress (py_int p) w;
          w2 = set_message (''Processing sentence '' @ str_nat (i + 1) @ ''/'' @ str_nat n) w1
      in case generate_speech env (sentence_text sentence) voice_id
                (job_id @ ''_sentence_'' @ str_nat i) w2 of
           (Inl e, w3) \<Rightarrow> (Inl e, w3)
         | (Inr cloned_audio_path, w3) \<Rightarrow>
             continuous_loop env voice_id job_id n (i + 1) rest
               (processed_chunks @ [cloned_audio_path]) w3)"

text \<open>The loop of the original mode: every sentence is synthesised and matched to its slot.\<close>

primrec original_loop ::
  "env \<Rightarrow> string \<Rightarrow> string \<Rightarrow> nat \<Rightarrow> nat \<Rightarrow> sentence list \<Rightarrow> path list \<Rightarrow> world
     \<Rightarrow> (exn + path list) \<times> world" where
  "original_loop env voice_id job_id n i [] processed_chunks w = (Inr processed_chunks, w)"
| "original_loop env voice_id job_id n i (sentence # rest) processed_chunks w =
     (let p = 30 + (of_nat i / of_nat n) * 50;
          w1 = set_progress (py_int p) w;
          w2 = set_message (''Processing sentence '' @ str_nat (i + 1) @ ''/'' @ str_nat n) w1
      in case generate_speech env (sentence_text sentence) voice_id
                (job_id @ ''_sentence_'' @ str_nat i) w2 of
           (Inl e, w3) \<Rightarrow> (Inl e, w3)
         | (Inr cloned_audio_path, w3) \<Rightarrow>
             (case match_timing_io env cloned_audio_path (start_time sentence)
                     (end_time sentence) (job_id @ ''_matched_'' @ str_nat i) w3 of
                (Inl e, w4) \<Rightarrow> (Inl e, w4)
              | (Inr matched_audio_path, w4) \<Rightarrow>
                  original_loop env voice_id job_id n (i + 1) rest
                    (processed_chunks @ [matched_audio_path]) w4))"

text \<open>
  \<^verbatim>\<open>Path(directory).glob(job_id + "_temp_*")\<close>: the files directly in the directory
  whose name starts with the prefix. \<open>after_prefix pre s\<close> is the rest of \<open>s\<close> after
  \<open>pre\<close>, when \<open>s\<close> starts with \<open>pre\<close>.
\<close>

fun after_prefix :: "string \<Rightarrow> string \<Rightarrow> string option" where
  "after_prefix [] s = Some s"
| "after_prefix (c # cs) [] = None"
| "after_prefix (c # cs) (d # ds) = (if c = d then after_prefix cs ds else None)"

definition glob_temp :: "string \<Rightarrow> string \<Rightarrow> fs \<Rightarrow> path list" where
  "glob_temp directory job_id fs =
     filter (\<lambda>p. case after_prefix (directory @ ''/'') p of
                   None \<Rightarrow> False
                 | Some name \<Rightarrow>
                     after_prefix (job_id @ ''_temp_'') name \<noteq> None \<and> CHR ''/'' \<notin> set name)
       (map fst fs)"

text \<open>
  \<^verbatim>\<open>cleanup_temp_files\<close>: the input file and the processed chunks are deleted, then the
  files matching \<^verbatim>\<open>{job_id}_temp_*\<close> in the two directories, the output file apart.
  Its \<^verbatim>\<open>except\<close> clause only logs, so it never raises.
\<close>

definition cleanup_temp_files :: "string \<Rightarrow> path \<Rightarrow> path list \<Rightarrow> path \<Rightarrow> world \<Rightarrow> world" where
  "cleanup_temp_files job_id input_path processed_chunks output_path w =
     (let fs1 = remove_if_exists input_path (files w);
          fs2 = fold remove_if_exists processed_chunks fs1;
          fs3 = fold (\<lambda>directory fs.
                   fold (\<lambda>file_path fs'.
                           if exists fs' file_path \<and> file_path \<noteq> output_path
                           then remove fs' file_path else fs')
                     (glob_temp directory job_id fs) fs)
                  [UPLOAD_DIR, OUTPUT_DIR] fs2
      in w\<lparr>files := fs3\<rparr>)"

text \<open>
  The body of the \<^verbatim>\<open>try\<close> block of \<^verbatim>\<open>process_audio_file\<close>, up to the output path and
  the processed chunks.
\<close>

definition convert ::
  "env \<Rightarrow> string \<Rightarrow> path \<Rightarrow> string \<Rightarrow> bool \<Rightarrow> bool \<Rightarrow> bool \<Rightarrow> bool \<Rightarrow> world
     \<Rightarrow> (exn + path \<times> path list) \<times> world" where
  "convert env job_id input_path voice_id continuous_bool same_length_bool timestamp_based_bool
       continuous_with_spaces_bool w =
     (if continuous_with_spaces_bool
      then (case convert_voice_continuous_with_spaces env input_path voice_id job_id
                   (w\<lparr>temp_files := []\<rparr>) of
              (Inl e, w1) \<Rightarrow> (Inl e, w1)
            | (Inr output_path, w1) \<Rightarrow> (Inr (output_path, []), w1))
      else
        (case transcribe_audio env input_path of
           Inl e \<Rightarrow> (Inl e, w)
         | Inr sentences \<Rightarrow>
             (let w1 = set_message ''Speech-to-text completed, starting voice cloning''
                         (set_progress 30 w)
              in if timestamp_based_bool
                 then
                   (let w2 = set_message ''Analyzing sentence gaps and filtering empty spaces''
                               (set_progress 35 w1);
                        sentences_dict = map (\<lambda>sentence. sentence\<lparr>confidence := None\<rparr>) sentences;
                        gap_analysis = analyze_sentence_gaps sentences_dict;
                        w3 = set_message (''Processing '' @ str_nat (filtered_sentences gap_analysis)
                               @ '' valid sentences with timestamp handling'') (set_progress 40 w2)
                    in case process_sentences_with_timestamps env input_path sentences_dict
                              voice_id (job_id @ ''_timestamp_based'') w3 of
                         (Inl e, w4) \<Rightarrow> (Inl e, w4)
                       | (Inr output_path, w4) \<Rightarrow> (Inr (output_path, []), w4))
                 else if same_length_bool
                 then
                   (case convert_voice_same_length env input_path (files w1) of
                      (Inl e, fs') \<Rightarrow> (Inl e, w1\<lparr>files := fs'\<rparr>)
                    | (Inr output_path, fs') \<Rightarrow> (Inr (output_path, []), w1\<lparr>files := fs'\<rparr>))
                 else if continuous_bool
                 then
                   (case continuous_loop env voice_id job_id (length sentences) 0 sentences [] w1 of
                      (Inl e, w2) \<Rightarrow> (Inl e, w2)
                    | (Inr processed_chunks, w2) \<Rightarrow>
                        (let w3 = set_message ''Concatenating audio chunks'' (set_progress 80 w2)
                         in case concatenate_audio_io processed_chunks (job_id @ ''_continuous'') w3 of
                              (Inl e, w4) \<Rightarrow> (Inl e, w4)
                            | (Inr output_path, w4) \<Rightarrow> (Inr (output_path, processed_chunks), w4)))
                 else
                   (case original_loop env voice_id job_id (length sentences) 0 sentences [] w1 of
                      (Inl e, w2) \<Rightarrow> (Inl e, w2)
                    | (Inr processed_chunks, w2) \<Rightarrow>
                        (let w3 = set_message ''Concatenating audio chunks'' (set_progress 80 w2)
                         in case concatenate_audio_io processed_chunks (job_id @ ''_final'') w3 of
                              (Inl e, w4) \<Rightarrow> (Inl e, w4)
                            | (Inr output_path, w4) \<Rightarrow> (Inr (output_path, processed_chunks), w4))))))"

text \<open>
  \<^verbatim>\<open>process_audio_file\<close>: on success the job is completed at progress 100 and the
  temporary files are cleaned up; the \<^verbatim>\<open>except\<close> clause records the failure in the job's
  entry and does nothing else.
\<close>

definition process_audio_file ::
  "env \<Rightarrow> string \<Rightarrow> path \<Rightarrow> string \<Rightarrow> string option \<Rightarrow> string option \<Rightarrow> string option
     \<Rightarrow> string option \<Rightarrow> world \<Rightarrow> world" where
  "process_audio_file env job_id input_path voice_id continuous_arg same_length_arg
       timestamp_based_arg continuous_with_spaces_arg w =
     (let continuous_bool = flag continuous_arg;
          same_length_bool = flag same_length_arg;
          timestamp_based_bool = flag timestamp_based_arg;
          continuous_with_spaces_bool = flag continuous_with_spaces_arg;
          w0 = set_message ''Starting audio processing''
                 (set_progress 10 (set_status ''processing'' w))
      in case convert env job_id input_path voice_id continuous_bool same_length_bool
                timestamp_based_bool continuous_with_spaces_bool w0 of
           (Inr (output_path, processed_chunks), w1) \<Rightarrow>
             (let w2 = set_message ''Finalizing output file'' (set_progress 90 w1);
                  url = ''file://'' @ output_path;
                  w3 = set_status ''completed'' w2;
                  w4 = set_message ''Processing completed successfully'' (set_progress 100 w3);
                  w5 = w4\<lparr>job := (job w4)\<lparr>download_url := Some url\<rparr>\<rparr>
              in cleanup_temp_files job_id input_path processed_chunks output_path w5)
         | (Inl e, w1) \<Rightarrow>
             w1\<lparr>job := (job w1)\<lparr>status := ''failed'', error := Some (str e),
                                  message := ''Processing failed: '' @ str e\<rparr>\<rparr>)"

section \<open>The gap-preserving assembly (tests/test_complete_workflow.py)\<close>

text \<open>
  \<^verbatim>\<open>CompleteVoiceConverter._create_final_audio_with_gaps\<close>, the workflow that the
  repository's comparison scripts run as the original mode: silence is inserted before a
  sentence when the gap from the current time exceeds 0.01 s, and after the last sentence
  when the original audio is more than 0.01 s longer.
\<close>

fun gaps_assembly_loop :: "fs \<Rightarrow> (path \<times> sentence) list \<Rightarrow> clip \<Rightarrow> rat \<Rightarrow> exn + clip \<times> rat" where
  "gaps_assembly_loop fs [] final_audio current_time = Inr (final_audio, current_time)"
| "gaps_assembly_loop fs ((audio_path, sentence) # rest) final_audio current_time =
     (let gap_duration = start_time sentence - current_time;
          final_audio' =
            (if gap_duration > 0.01
             then add_seg final_audio (silent (py_int (gap_duration * 1000)))
             else final_audio)
      in case from_file fs audio_path of
           Inl e \<Rightarrow> Inl e
         | Inr sentence_audio \<Rightarrow>
             gaps_assembly_loop fs rest (add_seg final_audio' sentence_audio) (end_time sentence))"

definition basename :: "path \<Rightarrow> string" where
  "basename p = rev (takeWhile (\<lambda>c. c \<noteq> CHR ''/'') (rev p))"

definition create_final_audio_with_gaps ::
  "fs \<Rightarrow> path list \<Rightarrow> sentence list \<Rightarrow> path \<Rightarrow> exn + (path \<times> fs)" where
  "create_final_audio_with_gaps fs processed_segments sentences input_path =
     reraise ''Final audio creation failed: ''
       (let output_path = OUTPUT_DIR @ ''/'' @ basename input_path
        in case from_file fs input_path of
             Inl e \<Rightarrow> Inl e
           | Inr original_audio \<Rightarrow>
               (let original_duration = (of_nat (len original_audio) :: rat) / 1000
                in case gaps_assembly_loop fs (zip processed_segments sentences) empty_segment 0 of
                     Inl e \<Rightarrow> Inl e
                   | Inr (final_audio, current_time) \<Rightarrow>
                       (let final_gap = original_duration - current_time;
                            final_audio' =
                              (if final_gap > 0.01
                               then add_seg final_audio (silent (py_int (final_gap * 1000)))
                               else final_audio)
                        in Inr (output_path,
                                export fs output_path final_audio'
                                  (frame_rate original_audio) (channels original_audio)))))"

section \<open>The gapless workflow (test_continuous_no_gaps.py)\<close>


section \<open>Auxiliary definitions for the statements\<close>

text \<open>A speed-up primitive that always raises, as pydub's does on a clip too short to chunk.\<close>

definition no_speedup :: speedup where
  "no_speedup audio playback_speed = Inl (Exception ''Could not speed up AudioSegment'')"

text \<open>What one path contributes to a concatenation: its frames, or 1000 ms of silence.\<close>

definition segment_or_silence :: "fs \<Rightarrow> path \<Rightarrow> int list" where
  "segment_or_silence fs p =
     (case from_file fs p of Inr a \<Rightarrow> frames a | Inl e \<Rightarrow> replicate 1000 0)"

text \<open>
  The clip that \<^verbatim>\<open>match_timing\<close> writes for a loaded clip of positive duration and a
  target duration: the part of the method between loading and exporting.
\<close>

definition reconcile :: "speedup \<Rightarrow> clip \<Rightarrow> rat \<Rightarrow> clip" where
  "reconcile sp cloned_audio target_duration =
     (let duration_ratio = target_duration / ((of_nat (len cloned_audio) :: rat) / 1000);
          matched_audio =
            (if \<bar>duration_ratio - 1\<bar> < 0.05 then cloned_audio
             else if duration_ratio > 1 then stretch_audio sp cloned_audio duration_ratio
             else compress_audio sp cloned_audio duration_ratio)
      in ensure_exact_duration matched_audio target_duration)"

text \<open>A clip of \<open>n\<close> milliseconds of constant non-silent signal, at the configured format.\<close>

definition tone :: "nat \<Rightarrow> clip" where
  "tone n = \<lparr>frames = replicate n 1, frame_rate = 22050, channels = 1\<rparr>"

text \<open>
  A run of the collaborators: the transcription returns the given sentences, the synthesis
  returns a clip of \<open>n\<close> ms for every text but the one given as failing, and the speed-up
  always raises.
\<close>

definition run_env :: "sentence list \<Rightarrow> nat \<Rightarrow> string \<Rightarrow> env" where
  "run_env sentences n failing =
     \<lparr>transcribe_audio = (\<lambda>p. Inr sentences),
      synthesize = (\<lambda>t v. if t = failing then Inl (Exception ''ElevenLabs API error: 500'')
                           else Inr (Audio (tone n))),
      speed = no_speedup,
      uuid_hex = (\<lambda>i. ''0000000'' @ str_nat (i mod 10)),
      convert_voice_same_length = (\<lambda>p fs. (Inl (Exception ''not run''), fs))\<rparr>"

section \<open>Gap analysis\<close>

lemma gaps_loop_total:
  "snd (gaps_loop prev ss gs speech) = speech + sum_list (map (\<lambda>s. end_time s - start_time s) ss)"
  by (induction ss arbitrary: prev gs speech) (simp_all add: Let_def)

lemma sum_list_sort_key:
  "sum_list (map f (sort_key k xs)) = sum_list (map (f :: 'a \<Rightarrow> rat) xs)"
proof -
  have "sum_mset (image_mset f (mset (sort_key k xs))) = sum_mset (image_mset f (mset xs))"
    by simp
  then show ?thesis
    by (metis mset_map sum_mset_sum_list)
qed


text \<open>
  C4: on the sentences (0.33, 0.47), (1.15, 2.23), (2.57, 7.52), gap analysis reports the
  leading gap (0, 0.33, 0.33) and the two gaps (0.47, 1.15, 0.68) and (2.23, 2.57, 0.34)
  between consecutive sentences, in this order, and a total speech time of 6.17.
\<close>

theorem gap_analysis_example:
  "gaps (analyze_sentence_gaps e2e_sentences) =
     [\<lparr>gap_start = 0, gap_end = 0.33, gap_duration = 0.33\<rparr>,
      \<lparr>gap_start = 0.47, gap_end = 1.15, gap_duration = 0.68\<rparr>,
      \<lparr>gap_start = 2.23, gap_end = 2.57, gap_duration = 0.34\<rparr>]
   \<and> total_speech_time (analyze_sentence_gaps e2e_sentences) = 6.17"
  by (simp add: analyze_sentence_gaps_def e2e_sentences_def mk_def Let_def)

lemma analyze_total_speech_time:
  "total_speech_time (analyze_sentence_gaps ss) = (\<Sum>s\<leftarrow>ss. end_time s - start_time s)"
proof -
  obtain gs tst where g: "gaps_loop None (sort_key start_time ss) [] 0 = (gs, tst)"
    by (cases "gaps_loop None (sort_key start_time ss) [] 0")
  have "tst = (\<Sum>s\<leftarrow>sort_key start_time ss. end_time s - start_time s)"
    using gaps_loop_total[of None "sort_key start_time ss" "[]" 0] g by simp
  then have "tst = (\<Sum>s\<leftarrow>ss. end_time s - start_time s)"
    by (simp add: sum_list_sort_key)
  then show ?thesis
    using g by (simp add: analyze_sentence_gaps_def Let_def)
qed

lemma sort_key_Nil_iff: "sort_key k xs = [] \<longleftrightarrow> xs = []"
  by (metis length_sort length_0_conv)

lemma analyze_total_duration:
  "total_duration (analyze_sentence_gaps ss) =
     (if ss = [] then 0 else end_time (last (sort_key start_time ss)))"
  by (cases "gaps_loop None (sort_key start_time ss) [] 0")
     (simp add: analyze_sentence_gaps_def Let_def sort_key_Nil_iff)

lemma analyze_speech_ratio:
  "speech_ratio (analyze_sentence_gaps ss) =
     (if total_duration (analyze_sentence_gaps ss) > 0
      then total_speech_time (analyze_sentence_gaps ss) / total_duration (analyze_sentence_gaps ss)
      else 0)"
  by (cases "gaps_loop None (sort_key start_time ss) [] 0")
     (simp add: analyze_sentence_gaps_def Let_def)

text \<open>
  C7: gap analysis computes the total speech time as the sum of (end - start) over all
  input sentences, valid or not; the speech ratio is 0 on the empty list, and on a
  non-empty list whose last sentence in start order ends after time 0 it is the total
  speech time divided by that end time.
\<close>

theorem speech_time_and_ratio:
  "total_speech_time (analyze_sentence_gaps ss) = (\<Sum>s\<leftarrow>ss. end_time s - start_time s)
   \<and> (ss = [] \<longrightarrow> speech_ratio (analyze_sentence_gaps ss) = 0)
   \<and> (ss \<noteq> [] \<longrightarrow> 0 < end_time (last (sort_key start_time ss)) \<longrightarrow>
        speech_ratio (analyze_sentence_gaps ss) =
          total_speech_time (analyze_sentence_gaps ss) / end_time (last (sort_key start_time ss)))"
  by (simp add: analyze_total_speech_time analyze_speech_ratio analyze_total_duration)

theorem speech_time_and_ratio_witness:
  "speech_ratio (analyze_sentence_gaps []) = 0
   \<and> total_speech_time (analyze_sentence_gaps e2e_sentences) = 6.17
   \<and> speech_ratio (analyze_sentence_gaps e2e_sentences) = 6.17 / 7.52"
  using speech_time_and_ratio [of "[]"] speech_time_and_ratio [of e2e_sentences]
  by (simp add: e2e_sentences_def mk_def)

section \<open>Sentence filtering\<close>

lemma filter_empty_spaces_eq: "filter_empty_spaces ss = filter code_valid ss"
  by (induction ss) (auto simp: code_valid_def Let_def)





section \<open>Duration reconciliation\<close>

lemma py_int_nonneg: "0 \<le> x \<Longrightarrow> py_int x = \<lfloor>x\<rfloor>"
  by (simp add: py_int_def)

lemma len_add_seg: "len (add_seg a b) = len a + len b"
  by (simp add: len_def add_seg_def)

lemma len_silent: "len (silent d) = nat d"
  by (simp add: len_def silent_def)

lemma len_slice_to_nonneg: "0 \<le> n \<Longrightarrow> len (slice_to a n) = min (nat n) (len a)"
  by (auto simp: slice_to_def len_def py_slice_def Let_def min_def)

lemma len_ensure_exact_duration:
  "0 \<le> t \<Longrightarrow> int (len (ensure_exact_duration a t)) = py_int (t * 1000)"
  by (auto simp: ensure_exact_duration_def Let_def len_add_seg len_silent len_slice_to_nonneg
        py_int_nonneg)

lemma from_file_export:
  "from_file (export fs p a r c) p = Inr (a\<lparr>frame_rate := r, channels := c\<rparr>)"
  by (simp add: from_file_def export_def write_file_def update_conv')

lemma len_format: "len (a\<lparr>frame_rate := r, channels := c\<rparr>) = len a"
  by (simp add: len_def)

lemma unit_roundoff_bounds: "0 < unit_roundoff" "unit_roundoff < 1"
  by (simp_all add: unit_roundoff_def)

lemma rounding_error: "rounding fl \<Longrightarrow> 0 \<le> x \<Longrightarrow> \<bar>fl x - x\<bar> \<le> unit_roundoff * x"
  unfolding rounding_def by (metis abs_of_nonneg)

lemma roundoff_mult_le: "0 \<le> x \<Longrightarrow> unit_roundoff * x \<le> x"
  using unit_roundoff_bounds mult_right_mono[of unit_roundoff 1 x] by simp

lemma rounding_nonneg: "rounding fl \<Longrightarrow> 0 \<le> x \<Longrightarrow> 0 \<le> fl x"
  using rounding_error[of fl x] roundoff_mult_le[of x] by linarith

lemma rounding_pos: "rounding fl \<Longrightarrow> 0 < x \<Longrightarrow> fl x \<noteq> 0"
proof
  assume r: "rounding fl" and x: "0 < x" and z: "fl x = 0"
  have "x \<le> unit_roundoff * x"
    using rounding_error[OF r, of x] x z by simp
  moreover have "unit_roundoff * x < 1 * x"
    using x unit_roundoff_bounds by (intro mult_strict_right_mono)
  ultimately show False by simp
qed

lemma rounding_product_error:
  assumes r: "rounding fl" and t: "0 \<le> t"
  shows "\<bar>fl (fl t * 1000) - t * 1000\<bar> \<le> 3000 * unit_roundoff * t"
proof -
  define u where "u = unit_roundoff"
  have u: "0 \<le> u" using unit_roundoff_bounds by (simp add: u_def)
  have a: "\<bar>fl t - t\<bar> \<le> u * t"
    unfolding u_def using r t by (rule rounding_error)
  have ft: "0 \<le> fl t"
    using r t by (rule rounding_nonneg)
  have ft': "0 \<le> fl t * 1000" using ft by simp
  have b: "\<bar>fl (fl t * 1000) - fl t * 1000\<bar> \<le> u * (fl t * 1000)"
    unfolding u_def using r ft' by (rule rounding_error)
  have "u * t \<le> t"
    unfolding u_def using t by (rule roundoff_mult_le)
  then have d: "fl t * 1000 \<le> 2000 * t"
    using a by linarith
  have c: "u * (fl t * 1000) \<le> u * (2000 * t)"
    using d u by (rule mult_left_mono)
  have c': "u * (2000 * t) = 2000 * (u * t)"
    by simp
  have e: "\<bar>fl (fl t * 1000) - fl t * 1000\<bar> \<le> 2000 * (u * t)"
    using b c c' by linarith
  have "\<bar>fl (fl t * 1000) - t * 1000\<bar> \<le> 3000 * (u * t)"
    using e a by linarith
  then show ?thesis
    by (simp add: u_def mult.assoc)
qed

lemma floor_tolerance:
  fixes b t e :: rat
  assumes b: "0 \<le> b" and err: "\<bar>b - t * 1000\<bar> \<le> 3000 * e"
  shows "\<bar>of_int \<lfloor>b\<rfloor> / 1000 - t\<bar> < 1 / 1000 + 3 * e"
proof -
  have "of_int \<lfloor>b\<rfloor> \<le> b" "b < of_int \<lfloor>b\<rfloor> + 1"
    by linarith+
  then show ?thesis
    using err by linarith
qed

lemma rounding_exact: "rounding (\<lambda>x. x)"
  using unit_roundoff_bounds by (simp add: rounding_def)

lemma len_ensure_exact_duration_fl:
  "0 \<le> fl (t * 1000) \<Longrightarrow>
   int (len (ensure_exact_duration_fl fl a t)) = \<lfloor>fl (t * 1000)\<rfloor>"
  by (auto simp: ensure_exact_duration_fl_def Let_def len_add_seg len_silent len_slice_to_nonneg
        py_int_nonneg)

lemma stretch_audio_fl_exact: "stretch_audio_fl (\<lambda>x. x) = stretch_audio"
  by (simp add: fun_eq_iff stretch_audio_fl_def stretch_audio_def)

lemma compress_audio_fl_exact: "compress_audio_fl (\<lambda>x. x) = compress_audio"
  by (simp add: fun_eq_iff compress_audio_fl_def compress_audio_def)

lemma ensure_exact_duration_fl_exact: "ensure_exact_duration_fl (\<lambda>x. x) = ensure_exact_duration"
  by (simp add: fun_eq_iff ensure_exact_duration_fl_def ensure_exact_duration_def)

text \<open>With exact arithmetic as the rounding, the two versions of timing matching agree.\<close>

lemma match_timing_fl_exact: "match_timing_fl (\<lambda>x. x) = match_timing"
  by (auto simp: fun_eq_iff match_timing_fl_def match_timing_def stretch_audio_fl_exact
        compress_audio_fl_exact ensure_exact_duration_fl_exact Let_def split: sum.splits)

text \<open>
  C1, as stated, fails. On a clip of zero duration the ratio is a division by the clip's
  duration, and the operation raises instead of padding. And the duration is not within one
  sample frame of the target: for a target of 0.5 ms the clip written is empty, 0.5 ms away
  from the target, where one frame of the 22050 Hz output lasts less than 0.05 ms.
\<close>

theorem match_timing_zero_clip_counterexample:
  "match_timing no_speedup [(''c.wav'', Audio (tone 0))] ''c.wav'' 0 1 ''m''
     = Inl (Exception ''Audio timing matching failed: float division by zero'')
   \<and> match_timing no_speedup [(''c.wav'', Audio (tone 10))] ''c.wav'' 0 0.0005 ''m''
     = Inr (''outputs/m.wav'', [(''c.wav'', Audio (tone 10)), (''outputs/m.wav'', Audio (tone 0))])
   \<and> (1 / of_nat AUDIO_SAMPLE_RATE :: rat) < \<bar>of_nat (len (tone 0)) / 1000 - (0.0005 - 0)\<bar>"
proof -
  have a: "match_timing no_speedup [(''c.wav'', Audio (tone 0))] ''c.wav'' 0 1 ''m''
     = Inl (Exception ''Audio timing matching failed: float division by zero'')"
    by (simp add: match_timing_def reraise_def from_file_def len_def tone_def)
  have b: "match_timing no_speedup [(''c.wav'', Audio (tone 10))] ''c.wav'' 0 0.0005 ''m''
     = Inr (''outputs/m.wav'', [(''c.wav'', Audio (tone 10)), (''outputs/m.wav'', Audio (tone 0))])"
    by (simp add: match_timing_def reraise_def from_file_def len_def no_speedup_def
        compress_audio_def ensure_exact_duration_def slice_to_def py_slice_def py_int_def Let_def
        export_def write_file_def wav_path_def OUTPUT_DIR_def AUDIO_SAMPLE_RATE_def
        AUDIO_CHANNELS_def tone_def)
  have c: "(1 / of_nat AUDIO_SAMPLE_RATE :: rat) < \<bar>of_nat (len (tone 0)) / 1000 - (0.0005 - 0)\<bar>"
    by (simp add: AUDIO_SAMPLE_RATE_def len_def tone_def)
  show ?thesis
    using a b c by blast
qed

text \<open>
  C1, amended: for every clip of positive duration and every target duration of at least 0,
  whatever the speed-up primitive does and whatever the rounding of the float operations,
  timing matching writes a clip of exactly \<^verbatim>\<open>int(target_duration * 1000)\<close> milliseconds,
  difference and product being the floats that the code computes. Its duration is therefore
  less than one millisecond, plus a rounding error of relative size \<open>3 \<cdot> 2\<^sup>-\<^sup>5\<^sup>3\<close>, away
  from the target.
\<close>

theorem match_timing_duration:
  assumes r: "rounding fl" and f: "from_file fs p = Inr c" and l: "0 < len c" and o: "ts \<le> te"
  shows "\<exists>fs' c'. match_timing_fl fl sp fs p ts te out = Inr (wav_path OUTPUT_DIR out, fs')
           \<and> from_file fs' (wav_path OUTPUT_DIR out) = Inr c'
           \<and> int (len c') = py_int (fl (fl (te - ts) * 1000))
           \<and> \<bar>of_nat (len c') / 1000 - (te - ts)\<bar> < 1 / 1000 + 3 * unit_roundoff * (te - ts)"
proof -
  define t where "t = te - ts"
  define b where "b = fl (fl t * 1000)"
  have t: "0 \<le> t" using o by (simp add: t_def)
  have ft: "0 \<le> fl t * 1000"
    using rounding_nonneg[OF r t] by simp
  have b: "0 \<le> b"
    unfolding b_def using r ft by (rule rounding_nonneg)
  have "0 < (of_nat (len c) :: rat) / 1000"
    using l by simp
  then have nz: "fl ((of_nat (len c) :: rat) / 1000) \<noteq> 0"
    using r by (rule rounding_pos[rotated])
  obtain m where m: "match_timing_fl fl sp fs p ts te out =
      Inr (wav_path OUTPUT_DIR out,
           export fs (wav_path OUTPUT_DIR out) (ensure_exact_duration_fl fl m (fl t))
             AUDIO_SAMPLE_RATE AUDIO_CHANNELS)"
    using f nz by (simp add: match_timing_fl_def reraise_def Let_def t_def)
  define c' where "c' = (ensure_exact_duration_fl fl m (fl t))\<lparr>frame_rate := AUDIO_SAMPLE_RATE, channels := AUDIO_CHANNELS\<rparr>"
  have ld: "int (len c') = \<lfloor>b\<rfloor>"
    using len_ensure_exact_duration_fl[of fl "fl t" m] b
    by (simp add: c'_def len_format b_def)
  have l1: "int (len c') = py_int b"
    using ld b by (simp add: py_int_nonneg)
  have "\<bar>b - t * 1000\<bar> \<le> 3000 * unit_roundoff * t"
    unfolding b_def using r t by (rule rounding_product_error)
  then have err: "\<bar>b - t * 1000\<bar> \<le> 3000 * (unit_roundoff * t)"
    by (simp add: mult.assoc)
  have "\<bar>of_int \<lfloor>b\<rfloor> / 1000 - t\<bar> < 1 / 1000 + 3 * (unit_roundoff * t)"
    using b err by (rule floor_tolerance)
  moreover have "(of_nat (len c') :: rat) = of_int \<lfloor>b\<rfloor>"
    using ld by (metis of_int_of_nat_eq)
  ultimately have l2: "\<bar>of_nat (len c') / 1000 - t\<bar> < 1 / 1000 + 3 * unit_roundoff * t"
    by (simp add: mult.assoc)
  have ff: "from_file (export fs (wav_path OUTPUT_DIR out) (ensure_exact_duration_fl fl m (fl t))
                 AUDIO_SAMPLE_RATE AUDIO_CHANNELS) (wav_path OUTPUT_DIR out) = Inr c'"
    unfolding c'_def by (rule from_file_export)
  show ?thesis
    using m ff l1 l2 unfolding t_def b_def by blast
qed

theorem match_timing_duration_witness:
  "\<exists>fs' c'. match_timing_fl (\<lambda>x. x) no_speedup [(''c.wav'', Audio (tone 3))] ''c.wav'' 1 1.5 ''m''
              = Inr (wav_path OUTPUT_DIR ''m'', fs')
           \<and> from_file fs' (wav_path OUTPUT_DIR ''m'') = Inr c'
           \<and> int (len c') = 500"
proof -
  have r: "rounding (\<lambda>x. x)"
    by (rule rounding_exact)
  have a: "from_file [(''c.wav'', Audio (tone 3))] ''c.wav'' = Inr (tone 3)"
    by (simp add: from_file_def)
  have b: "0 < len (tone 3)"
    by (simp add: len_def tone_def)
  have c: "(1::rat) \<le> 1.5"
    by simp
  have d: "py_int ((1.5 - 1) * 1000) = 500"
    by (simp add: py_int_def)
  obtain fs' c' where
    "match_timing_fl (\<lambda>x. x) no_speedup [(''c.wav'', Audio (tone 3))] ''c.wav'' 1 1.5 ''m''
       = Inr (wav_path OUTPUT_DIR ''m'', fs')"
    "from_file fs' (wav_path OUTPUT_DIR ''m'') = Inr c'"
    "int (len c') = py_int ((1.5 - 1) * 1000)"
    using match_timing_duration [OF r a b c, of no_speedup "''m''"] by blast
  then show ?thesis
    unfolding d by blast
qed

text \<open>
  C3, as stated, fails: there is no check of the target's sign. On a 10 ms clip and a target
  of -0.005 s, timing matching raises nothing and writes an empty clip.
\<close>

theorem match_timing_negative_target_counterexample:
  "match_timing no_speedup [(''c.wav'', Audio (tone 10))] ''c.wav'' 1 0.995 ''m''
     = Inr (''outputs/m.wav'', [(''c.wav'', Audio (tone 10)), (''outputs/m.wav'', Audio (tone 0))])"
  by (simp add: match_timing_def reraise_def from_file_def len_def no_speedup_def
        compress_audio_def ensure_exact_duration_def slice_to_def py_slice_def py_int_def Let_def
        export_def write_file_def wav_path_def OUTPUT_DIR_def AUDIO_SAMPLE_RATE_def
        AUDIO_CHANNELS_def tone_def)

text \<open>
  C3, amended: timing matching raises exactly when the clip does not load or has zero
  duration, whatever the target duration, negative ones included; so it never raises on a
  clip of positive duration, and a negative target is not rejected.
\<close>

theorem match_timing_raises_iff:
  "(\<exists>e. match_timing sp fs p ts te out = Inl e) \<longleftrightarrow>
     (\<exists>e. from_file fs p = Inl e) \<or> (\<exists>c. from_file fs p = Inr c \<and> len c = 0)"
  by (auto simp: match_timing_def reraise_def Let_def split: sum.splits)

theorem match_timing_raises_iff_witness:
  "\<not> (\<exists>e. match_timing no_speedup [(''c.wav'', Audio (tone 10))] ''c.wav'' 0 2 ''m'' = Inl e)
   \<and> (\<exists>e. match_timing no_speedup [] ''c.wav'' 0 2 ''m'' = Inl e)"
  using match_timing_raises_iff [of no_speedup "[(''c.wav'', Audio (tone 10))]" "''c.wav''" 0 2 "''m''"]
    match_timing_raises_iff [of no_speedup "[]" "''c.wav''" 0 2 "''m''"]
  by (simp add: from_file_def len_def tone_def)

section \<open>Concatenation\<close>

lemma frames_concat_loop:
  "frames (concat_loop fs ps acc) = frames acc @ concat (map (segment_or_silence fs) ps)"
  by (induction ps arbitrary: acc)
     (auto simp: segment_or_silence_def add_seg_def set_channels_def set_frame_rate_def silent_def
           split: sum.splits)

lemma concat_segments_empty_iff:
  "concat (map (segment_or_silence fs) ps) = [] \<longleftrightarrow>
     (\<forall>p\<in>set ps. \<exists>c. from_file fs p = Inr c \<and> len c = 0)"
proof -
  have "segment_or_silence fs p = [] \<longleftrightarrow> (\<exists>c. from_file fs p = Inr c \<and> len c = 0)" for p
    by (cases "from_file fs p") (simp_all add: segment_or_silence_def len_def)
  then show ?thesis by simp
qed

text \<open>
  C10: concatenation of one path whose file is missing, so that every segment fails to
  load. The failed load is replaced by 1000 ms of silence, the check for an empty result
  (\<^verbatim>\<open>No valid audio segments found\<close>) does not fire, and a file of silence is written where
  the claim has the operation raise.
\<close>

theorem concatenate_all_failed_silence:
  "concatenate_audio [] [''missing.wav''] ''out'' =
     Inr (''outputs/out.wav'',
          [(''outputs/out.wav'',
            Audio \<lparr>frames = replicate 1000 0, frame_rate = 22050, channels = 1\<rparr>)])"
  by (simp add: concatenate_audio_def reraise_def Let_def from_file_def add_seg_def silent_def
        empty_segment_def len_def export_def write_file_def wav_path_def OUTPUT_DIR_def
        AUDIO_SAMPLE_RATE_def AUDIO_CHANNELS_def)

text \<open>
  When concatenation raises and what it writes: it raises when no path is given or the
  combined audio is empty, and it otherwise writes the segments in input order, 1000 ms of
  silence standing for each segment that failed to load.
\<close>

lemma concatenate_audio_raises_iff:
  "((\<exists>e. concatenate_audio fs ps out = Inl e) \<longleftrightarrow>
      ps = [] \<or> (\<forall>p\<in>set ps. \<exists>c. from_file fs p = Inr c \<and> len c = 0))
   \<and> ((\<forall>e. concatenate_audio fs ps out \<noteq> Inl e) \<longrightarrow>
        (\<exists>fs' c. concatenate_audio fs ps out = Inr (wav_path OUTPUT_DIR out, fs')
           \<and> from_file fs' (wav_path OUTPUT_DIR out) = Inr c
           \<and> frames c = concat (map (segment_or_silence fs) ps)))"
proof -
  have l: "len (concat_loop fs ps empty_segment) = 0 \<longleftrightarrow>
      (\<forall>p\<in>set ps. \<exists>c. from_file fs p = Inr c \<and> len c = 0)"
    using concat_segments_empty_iff[of fs ps]
    by (simp add: len_def frames_concat_loop empty_segment_def)
  have f: "frames (concat_loop fs ps empty_segment) = concat (map (segment_or_silence fs) ps)"
    by (simp add: frames_concat_loop empty_segment_def)
  show ?thesis
    using l f
    by (auto simp: concatenate_audio_def reraise_def Let_def from_file_export)
qed

section \<open>Running a conversion\<close>

text \<open>Facts that evaluate a run step by step.\<close>

lemma from_file_Cons:
  "from_file ((q, x) # fs) p =
     (if p = q then (case x of Garbage \<Rightarrow> Inl (CouldntDecodeError p) | Audio a \<Rightarrow> Inr a)
      else from_file fs p)"
  by (simp add: from_file_def)

lemma from_file_Nil: "from_file [] p = Inl (FileNotFoundError (no_such_file p))"
  by (simp add: from_file_def)

lemma floor_rat_numeral: "\<lfloor>numeral a / numeral b :: rat\<rfloor> = numeral a div numeral b"
  by (metis floor_divide_of_int_eq of_int_numeral)

lemma job_cleanup: "job (cleanup_temp_files j i c out w) = job w"
  by (simp add: cleanup_temp_files_def Let_def)

lemma progress_log_cleanup: "progress_log (cleanup_temp_files j i c out w) = progress_log w"
  by (simp add: cleanup_temp_files_def Let_def)

lemma job_converter_cleanup: "job (converter_cleanup_temp_files w) = job w"
  by (simp add: converter_cleanup_temp_files_def)

lemma progress_log_converter_cleanup:
  "progress_log (converter_cleanup_temp_files w) = progress_log w"
  by (simp add: converter_cleanup_temp_files_def)

lemma from_file_remove:
  "from_file (remove fs p) q =
     (if q = p then Inl (FileNotFoundError (no_such_file q)) else from_file fs q)"
  by (simp add: from_file_def remove_def delete_conv')

lemma from_file_remove_if_exists:
  "q \<noteq> p \<Longrightarrow> from_file (remove_if_exists p fs) q = from_file fs q"
  by (simp add: remove_if_exists_def from_file_remove)

lemma from_file_fold_remove:
  "q \<notin> set ps \<Longrightarrow> from_file (fold remove_if_exists ps fs) q = from_file fs q"
  by (induction ps arbitrary: fs) (simp_all add: from_file_remove_if_exists)

lemma from_file_fold_glob:
  "from_file (fold (\<lambda>file_path fs'. if exists fs' file_path \<and> file_path \<noteq> out
                                       then remove fs' file_path else fs') ps fs) out
     = from_file fs out"
  by (induction ps arbitrary: fs) (simp_all add: from_file_remove)

text \<open>The clean-up after a successful run keeps the output file.\<close>

lemma from_file_cleanup:
  "out \<noteq> input_path \<Longrightarrow> out \<notin> set chunks \<Longrightarrow>
   from_file (files (cleanup_temp_files j input_path chunks out w)) out = from_file (files w) out"
  by (simp add: cleanup_temp_files_def Let_def from_file_fold_glob from_file_fold_remove
        from_file_remove_if_exists)

lemma match_timing_reconcile:
  "from_file fs p = Inr c \<Longrightarrow> 0 < len c \<Longrightarrow>
   match_timing sp fs p ts te out =
     Inr (wav_path OUTPUT_DIR out,
          export fs (wav_path OUTPUT_DIR out) (reconcile sp c (te - ts))
            AUDIO_SAMPLE_RATE AUDIO_CHANNELS)"
  by (simp add: match_timing_def reraise_def reconcile_def Let_def)

lemma len_ensure_exact_duration_nat:
  "0 \<le> t \<Longrightarrow> len (ensure_exact_duration a t) = nat (py_int (t * 1000))"
  using len_ensure_exact_duration[of t a] by linarith

lemma len_reconcile: "0 \<le> t \<Longrightarrow> len (reconcile sp c t) = nat (py_int (t * 1000))"
  by (simp add: reconcile_def Let_def len_ensure_exact_duration_nat)

lemma len_tone: "len (tone n) = n"
  by (simp add: len_def tone_def)

lemma len_set_format: "len (set_channels (set_frame_rate a r) c) = len a"
  by (simp add: len_def set_channels_def set_frame_rate_def)

lemma len_empty_segment: "len empty_segment = 0"
  by (simp add: len_def empty_segment_def)

lemmas len_simps =
  len_tone len_set_format len_empty_segment len_reconcile len_add_seg len_silent len_format

lemmas run_defs =
  process_audio_file_def convert_def flag_def lower_def set_progress_def set_message_def
  set_status_def queued_def run_env_def generate_speech_def
  job_cleanup progress_log_cleanup job_converter_cleanup progress_log_converter_cleanup
  from_file_cleanup write_file_def export_def match_timing_io_def match_timing_reconcile
  concatenate_audio_io_def concatenate_audio_def from_file_Cons from_file_Nil wav_path_def
  OUTPUT_DIR_def UPLOAD_DIR_def reraise_def py_int_def digit_def Let_def mk_def
  floor_rat_numeral no_speedup_def str_nat.simps

section \<open>Policy A: the original mode\<close>

text \<open>
  C2: the end-to-end scenario of the specification (three sentences, an original audio of
  8.0 s, synthesised clips of 1 s). The original mode of \<^verbatim>\<open>process_audio_file\<close> completes
  with an output of 6170 ms: the three slots of 140, 1080 and 4950 ms and no silence, where
  the claim promises 8000 ms. On segments of these three lengths, the gap-preserving
  assembly of \<^verbatim>\<open>CompleteVoiceConverter\<close> writes 8000 ms. The figures are those of exact
  arithmetic; the floats of the code truncate some of these durations one millisecond lower
  (slots of 139, 1080 and 4949 ms), which leaves the shortfall of 1.83 s as it is.
\<close>

theorem original_mode_e2e_duration:
  "(let w = process_audio_file (run_env e2e_sentences 1000 '''') ''j'' ''uploads/j_in.wav'' ''v''
              None None None None (queued [(''uploads/j_in.wav'', Audio (tone 8000))])
    in (status (job w), map_sum str len (from_file (files w) ''outputs/j_final.wav'')))
     = (''completed'', Inr 6170)
   \<and> (case create_final_audio_with_gaps
              [(''uploads/j_in.wav'', Audio (tone 8000)), (''m0.wav'', Audio (tone 140)),
               (''m1.wav'', Audio (tone 1080)), (''m2.wav'', Audio (tone 4950))]
              [''m0.wav'', ''m1.wav'', ''m2.wav''] e2e_sentences ''uploads/j_in.wav'' of
         Inl e \<Rightarrow> Inl (str e)
       | Inr (output_path, fs') \<Rightarrow> map_sum str len (from_file fs' output_path))
     = Inr 8000"
proof -
  have a: "(let w = process_audio_file (run_env e2e_sentences 1000 '''') ''j'' ''uploads/j_in.wav'' ''v''
              None None None None (queued [(''uploads/j_in.wav'', Audio (tone 8000))])
    in (status (job w), map_sum str len (from_file (files w) ''outputs/j_final.wav'')))
     = (''completed'', Inr 6170)"
    by (simp add: run_defs len_simps e2e_sentences_def)
  have b: "(case create_final_audio_with_gaps
              [(''uploads/j_in.wav'', Audio (tone 8000)), (''m0.wav'', Audio (tone 140)),
               (''m1.wav'', Audio (tone 1080)), (''m2.wav'', Audio (tone 4950))]
              [''m0.wav'', ''m1.wav'', ''m2.wav''] e2e_sentences ''uploads/j_in.wav'' of
         Inl e \<Rightarrow> Inl (str e)
       | Inr (output_path, fs') \<Rightarrow> map_sum str len (from_file fs' output_path))
     = Inr 8000"
    by (simp add: create_final_audio_with_gaps_def reraise_def from_file_Cons from_file_Nil
          from_file_export len_simps e2e_sentences_def mk_def py_int_def Let_def)
  show ?thesis
    using a b by (rule conjI)
qed

section \<open>Policy B: the continuous mode\<close>


section \<open>Progress and failure\<close>

text \<open>
  C8: a successful run in the mode \<^verbatim>\<open>continuous_with_spaces\<close>, on one sentence. The
  converter sets the progress to 95 before it returns, and \<^verbatim>\<open>process_audio_file\<close> then
  sets it to 90: the values reported are not monotone.
\<close>

theorem continuous_with_spaces_progress:
  "(let w = process_audio_file (run_env [mk ''Hello'' 0.002 0.004] 3 '''') ''j''
              ''uploads/j_in.wav'' ''v'' None None None (Some ''true'')
              (queued [(''uploads/j_in.wav'', Audio (tone 8))])
    in (status (job w), progress_log w))
     = (''completed'', [0, 10, 15, 20, 75, 95, 90, 100])"
  by (simp add: run_defs convert_voice_continuous_with_spaces_def
        create_continuous_audio_with_spaces_def exists_def AUDIO_SAMPLE_RATE_def
        AUDIO_CHANNELS_def len_def tone_def add_seg_def silent_def empty_segment_def)

text \<open>
  C9: a run in the original mode on two sentences, where the synthesis of the second one
  fails. The job is reported failed with the error message, and the files created so far
  (the first sentence's synthesised clip and its matched clip) and the uploaded input are
  all still there: the \<^verbatim>\<open>except\<close> clause deletes nothing.
\<close>

theorem failed_run_keeps_intermediate_files:
  "(let w = process_audio_file
              (run_env [mk ''Hello'' 0 0.002, mk ''world'' 0.003 0.005] 3 ''world'') ''j''
              ''uploads/j_in.wav'' ''v'' None None None None
              (queued [(''uploads/j_in.wav'', Audio (tone 8))])
    in (status (job w), error (job w), map fst (files w)))
     = (''failed'', Some ''ElevenLabs speech generation failed: ElevenLabs API error: 500'',
        [''uploads/j_in.wav'', ''outputs/j_sentence_0.wav'', ''outputs/j_matched_0.wav''])"
  by (simp add: run_defs len_simps)

end
